theory Spec2Isabelle
  imports Complex_Main "HOL-Library.Multiset"
begin

section \<open>Data model (types.ts, constants.ts)\<close>

text \<open>
  JavaScript numbers that only ever hold integers (scores, combo counters, indices, the
  countdown, epoch milliseconds) are modelled as unbounded \<^typ>\<open>int\<close>; the values drawn
  from \<open>Math.random()\<close> and the opponent configuration are \<^typ>\<open>real\<close>. Strings are
  \<^typ>\<open>string\<close>.
\<close>

record QuizOption =
  id' :: string
  label :: string
  text' :: string
  isCorrect :: bool

record Question =
  qid :: int
  country :: string
  capital :: string
  flagCode :: string
  flagUrl :: string
  questionText :: string
  isCapitalQuestion :: bool
  options :: "QuizOption list"
  region :: "string option"

datatype GameStatus = Start | DifficultySelect | Playing | Finished | Leaderboard

datatype GameMode = Single | Pve

text \<open>\<open>Difficulty = 1 | 2 | 3 | 4\<close>, named as the comments of \<open>AI_CONFIG\<close> name them.\<close>

datatype Difficulty = Easy | Medium | Hard | Expert

record LeaderboardEntry =
  name :: string
  score :: int
  timestamp :: int

record GameState =
  status :: GameStatus
  gameMode :: GameMode
  difficulty :: Difficulty
  score :: int
  computerScore :: int
  consecutiveCorrect :: int
  computerConsecutiveCorrect :: int
  currentQuestionIndex :: int
  totalQuestions :: int
  timeLeft :: int
  selectedOptionId :: "string option"
  isAnswerRevealed :: bool
  isPaused :: bool
  isHintActive :: bool
  isExitConfirmOpen :: bool

definition GAME_DURATION_SECONDS :: int where
  "GAME_DURATION_SECONDS = 10"

definition QUESTIONS_PER_GAME :: int where
  "QUESTIONS_PER_GAME = 20"

definition MAX_LEADERBOARD_ENTRIES :: nat where
  "MAX_LEADERBOARD_ENTRIES = 10"

record AIConfig =
  accuracy :: real
  minDelay :: real
  maxDelay :: real

fun AI_CONFIG :: "Difficulty \<Rightarrow> AIConfig" where
  "AI_CONFIG Easy = \<lparr>accuracy = 0.50, minDelay = 6, maxDelay = 10\<rparr>"
| "AI_CONFIG Medium = \<lparr>accuracy = 0.65, minDelay = 5, maxDelay = 8\<rparr>"
| "AI_CONFIG Hard = \<lparr>accuracy = 0.75, minDelay = 3.5, maxDelay = 6\<rparr>"
| "AI_CONFIG Expert = \<lparr>accuracy = 0.85, minDelay = 2, maxDelay = 4\<rparr>"

section \<open>Scoring engine\<close>

text \<open>
  \<open>calculateNewScoreState\<close>: the returned object \<open>{score, consecutive}\<close> is the pair
  \<open>(newScore, newConsecutive)\<close>.
\<close>

definition calculateNewScoreState :: "int \<Rightarrow> int \<Rightarrow> bool \<Rightarrow> bool \<Rightarrow> int \<times> int" where
  "calculateNewScoreState currentScore currentConsecutive isCorrect' isHintUsed =
     (if isCorrect' then
        (if isHintUsed then (currentScore, 0)
         else (let comboBonus = currentConsecutive * 25
               in (currentScore + (100 + comboBonus), currentConsecutive + 1)))
      else (currentScore - 50, 0))"

text \<open>
  The reference definition \<open>applyOutcome\<close>, written from the words of the specification
  (section 4.2), one equation per case.
\<close>

fun applyOutcome_spec :: "int \<Rightarrow> int \<Rightarrow> bool \<Rightarrow> bool \<Rightarrow> int \<times> int" where
  "applyOutcome_spec s combo True False = (s + 100 + 25 * combo, combo + 1)"
| "applyOutcome_spec s combo True True = (s, 0)"
| "applyOutcome_spec s combo False h = (s - 50, 0)"

section \<open>Application state\<close>

text \<open>
  The component state of \<open>App\<close>: the two \<open>useState\<close> cells of the game, the name field
  and the saved flag, the two refs of the opponent, the browser's local storage and the
  callbacks handed to \<open>setTimeout\<close> that have not fired yet (delay in milliseconds). No
  handler of the source ever calls \<open>clearTimeout\<close>, so a pending callback leaves the
  list only by firing.
\<close>

datatype StoredJSON = Unparsable | Parsed "LeaderboardEntry list"

record LocalStorage =
  quiz_leaderboard :: "StoredJSON option"
  quiz_last_reset :: "string option"

datatype Callback = HandleNext | ShowLeaderboard

record AppState =
  gameState :: GameState
  activeQuestions :: "Question list"
  playerName :: string
  isScoreSaved :: bool
  aiAnsweredRef :: bool
  aiTriggerTimeRef :: real
  localStorage :: LocalStorage
  timeouts :: "(nat \<times> Callback) list"

text \<open>The initial value of the \<open>gameState\<close> cell (the argument of \<open>useState\<close>).\<close>

definition initialGameState :: GameState where
  "initialGameState =
     \<lparr>status = Start, gameMode = Single, difficulty = Medium, score = 0, computerScore = 0,
      consecutiveCorrect = 0, computerConsecutiveCorrect = 0, currentQuestionIndex = 0,
      totalQuestions = QUESTIONS_PER_GAME, timeLeft = GAME_DURATION_SECONDS,
      selectedOptionId = None, isAnswerRevealed = False, isPaused = False,
      isHintActive = False, isExitConfirmOpen = False\<rparr>"

text \<open>\<open>arr[i]\<close> for a number \<open>i\<close>: \<open>undefined\<close> outside \<open>0 .. length - 1\<close>.\<close>

definition at_index :: "'a list \<Rightarrow> int \<Rightarrow> 'a option" where
  "at_index xs i = (if 0 \<le> i \<and> i < int (length xs) then Some (xs ! nat i) else None)"

section \<open>Session state machine\<close>

definition handleRestartGame :: "AppState \<Rightarrow> AppState" where
  "handleRestartGame app =
     app\<lparr>gameState :=
           \<lparr>status = Start, gameMode = Single, difficulty = Medium, score = 0,
            computerScore = 0, consecutiveCorrect = 0, computerConsecutiveCorrect = 0,
            currentQuestionIndex = 0, totalQuestions = QUESTIONS_PER_GAME,
            timeLeft = GAME_DURATION_SECONDS, selectedOptionId = None,
            isAnswerRevealed = False, isPaused = False, isHintActive = False,
            isExitConfirmOpen = False\<rparr>,
         activeQuestions := [],
         playerName := [],
         isScoreSaved := False\<rparr>"

definition handleExitRequest :: "AppState \<Rightarrow> AppState" where
  "handleExitRequest app =
     (if status (gameState app) = Playing
      then app\<lparr>gameState := (gameState app)\<lparr>isExitConfirmOpen := True\<rparr>\<rparr>
      else app)"

definition handleConfirmExit :: "AppState \<Rightarrow> AppState" where
  "handleConfirmExit app =
     app\<lparr>gameState := (gameState app)\<lparr>status := Start, isExitConfirmOpen := False\<rparr>,
         activeQuestions := []\<rparr>"

definition handleCancelExit :: "AppState \<Rightarrow> AppState" where
  "handleCancelExit app =
     app\<lparr>gameState := (gameState app)\<lparr>isExitConfirmOpen := False\<rparr>\<rparr>"

text \<open>The state updater inside \<open>handleNext\<close>, and the handler that applies it.\<close>

definition handleNext_update :: "GameState \<Rightarrow> GameState" where
  "handleNext_update prev =
     (let nextIndex = currentQuestionIndex prev + 1 in
      if nextIndex \<ge> totalQuestions prev then prev\<lparr>status := Finished\<rparr>
      else prev\<lparr>currentQuestionIndex := nextIndex,
                timeLeft := GAME_DURATION_SECONDS,
                selectedOptionId := None,
                isAnswerRevealed := False,
                isPaused := False,
                isHintActive := False\<rparr>)"

definition handleNext :: "AppState \<Rightarrow> AppState" where
  "handleNext app = app\<lparr>gameState := handleNext_update (gameState app)\<rparr>"

text \<open>
  \<open>executeAIAnswer\<close> reads and sets \<open>aiAnsweredRef\<close>, so it maps the ref together with
  the state it is given. \<open>rnd\<close> is the value \<open>Math.random()\<close> returns when it is called.
\<close>

definition executeAIAnswer :: "real \<Rightarrow> bool \<times> GameState \<Rightarrow> bool \<times> GameState" where
  "executeAIAnswer rnd p =
     (case p of (answered, currentState) \<Rightarrow>
        if answered then (answered, currentState)
        else (let config = AI_CONFIG (difficulty currentState);
                  isCorrect' = (rnd < accuracy config);
                  r = calculateNewScoreState (computerScore currentState)
                        (computerConsecutiveCorrect currentState) isCorrect' False
              in (True, currentState\<lparr>computerScore := fst r,
                                       computerConsecutiveCorrect := snd r\<rparr>)))"

text \<open>
  The effect that arms the opponent for a new question: it clears the answered flag and
  sets the trigger time from one draw of \<open>Math.random()\<close>.
\<close>

definition ai_init_effect :: "real \<Rightarrow> AppState \<Rightarrow> AppState" where
  "ai_init_effect rnd app =
     (let g = gameState app in
      if status g = Playing \<and> gameMode g = Pve then
        (let config = AI_CONFIG (difficulty g);
             range' = maxDelay config - minDelay config;
             delay = minDelay config + rnd * range'
         in app\<lparr>aiAnsweredRef := False,
                 aiTriggerTimeRef := real_of_int GAME_DURATION_SECONDS - delay\<rparr>)
      else app)"

text \<open>The state updater of the timeout branch of the timer effect.\<close>

definition timeout_update :: "real \<Rightarrow> bool \<times> GameState \<Rightarrow> bool \<times> GameState" where
  "timeout_update rnd p =
     (case p of (answered, prev) \<Rightarrow>
        (let n = (if gameMode prev = Pve then executeAIAnswer rnd (answered, prev)
                  else (answered, prev))
         in (fst n, (snd n)\<lparr>consecutiveCorrect := 0,
                             score := score prev - 50,
                             isAnswerRevealed := True\<rparr>)))"

text \<open>
  The timer effect, run after a render whose state is \<open>gameState app\<close>. The interval it
  installs in its last branch fires \<open>timer_tick\<close> once a second.
\<close>

definition timer_effect :: "real \<Rightarrow> AppState \<Rightarrow> AppState" where
  "timer_effect rnd app =
     (let g = gameState app in
      if status g \<noteq> Playing then app
      else if isAnswerRevealed g \<or> isPaused g \<or> isExitConfirmOpen g then app
      else if timeLeft g \<le> 0 then
        (let n = timeout_update rnd (aiAnsweredRef app, g)
         in app\<lparr>gameState := snd n, aiAnsweredRef := fst n,
                 timeouts := timeouts app @ [(1500, HandleNext)]\<rparr>)
      else if gameMode g = Pve \<and> \<not> aiAnsweredRef app
              \<and> real_of_int (timeLeft g) \<le> aiTriggerTimeRef app then
        (let n = executeAIAnswer rnd (aiAnsweredRef app, g)
         in app\<lparr>gameState := snd n, aiAnsweredRef := fst n\<rparr>)
      else app)"

definition timer_tick :: "AppState \<Rightarrow> AppState" where
  "timer_tick app =
     app\<lparr>gameState := (gameState app)\<lparr>timeLeft := timeLeft (gameState app) - 1\<rparr>\<rparr>"

definition handlePause :: "AppState \<Rightarrow> AppState" where
  "handlePause app =
     (let g = gameState app in
      if isAnswerRevealed g \<or> isExitConfirmOpen g then app
      else app\<lparr>gameState := g\<lparr>isPaused := \<not> isPaused g\<rparr>\<rparr>)"

definition handleHint :: "AppState \<Rightarrow> AppState" where
  "handleHint app =
     (let g = gameState app in
      if isAnswerRevealed g \<or> isPaused g \<or> isHintActive g \<or> isExitConfirmOpen g then app
      else app\<lparr>gameState := g\<lparr>score := score g - 100, isHintActive := True\<rparr>\<rparr>)"

text \<open>
  \<open>handleSelectOption\<close>: \<open>find\<close> yields the first option with the given id, and a missing
  option makes \<open>isCorrect\<close> undefined, which \<open>!!\<close> turns into \<open>false\<close>.
\<close>

definition handleSelectOption :: "real \<Rightarrow> string \<Rightarrow> AppState \<Rightarrow> AppState" where
  "handleSelectOption rnd oid app =
     (let g = gameState app in
      if isAnswerRevealed g \<or> isPaused g \<or> isExitConfirmOpen g then app
      else (case at_index (activeQuestions app) (currentQuestionIndex g) of
              None \<Rightarrow> app
            | Some currentData \<Rightarrow>
                (let isCorrect' = (case find (\<lambda>opt. id' opt = oid) (options currentData) of
                                     None \<Rightarrow> False | Some opt \<Rightarrow> isCorrect opt);
                     r = calculateNewScoreState (score g) (consecutiveCorrect g)
                           isCorrect' (isHintActive g);
                     nextState = g\<lparr>selectedOptionId := Some oid,
                                    isAnswerRevealed := True,
                                    score := fst r,
                                    consecutiveCorrect := snd r\<rparr>;
                     n = (if gameMode g = Pve \<and> \<not> aiAnsweredRef app
                          then executeAIAnswer rnd (aiAnsweredRef app, nextState)
                          else (aiAnsweredRef app, nextState))
                 in app\<lparr>gameState := snd n, aiAnsweredRef := fst n,
                         timeouts := timeouts app @ [(1500, HandleNext)]\<rparr>)))"

text \<open>
  A pending \<open>setTimeout\<close> callback fires: it leaves the list and runs. The callback of
  \<open>handleSaveScore\<close> sets the status to \<open>leaderboard\<close>.
\<close>

fun run_callback :: "Callback \<Rightarrow> AppState \<Rightarrow> AppState" where
  "run_callback HandleNext app = handleNext app"
| "run_callback ShowLeaderboard app =
     app\<lparr>gameState := (gameState app)\<lparr>status := Leaderboard\<rparr>\<rparr>"

definition fire_timeout :: "AppState \<Rightarrow> AppState" where
  "fire_timeout app =
     (case timeouts app of
        [] \<Rightarrow> app
      | (d, cb) # rest \<Rightarrow> run_callback cb (app\<lparr>timeouts := rest\<rparr>))"

section \<open>Rendering guard\<close>

text \<open>
  What \<open>App\<close> returns, by screen. \<open>Nothing\<close> is \<open>return null\<close>; \<open>RenderError\<close> stands for
  the playing screen handed an undefined question, which would throw in \<open>QuestionCard\<close>.
\<close>

datatype View =
  StartScreen | DifficultyScreen | LeaderboardScreen | FinishedScreen
  | Nothing | PlayingScreen Question | RenderError

text \<open>\<open>activeQuestions[index] || activeQuestions[0]\<close>; a question object is never falsy.\<close>

definition currentQuestionData :: "AppState \<Rightarrow> Question option" where
  "currentQuestionData app =
     (case at_index (activeQuestions app) (currentQuestionIndex (gameState app)) of
        Some q \<Rightarrow> Some q
      | None \<Rightarrow> at_index (activeQuestions app) 0)"

definition render :: "AppState \<Rightarrow> View" where
  "render app =
     (let g = gameState app in
      if status g = Start then StartScreen
      else if status g = DifficultySelect then DifficultyScreen
      else if status g = Leaderboard then LeaderboardScreen
      else if status g = Finished then FinishedScreen
      else if status g = Playing \<and> currentQuestionData app = None then Nothing
      else (case currentQuestionData app of
              Some q \<Rightarrow> PlayingScreen q
            | None \<Rightarrow> RenderError))"

section \<open>Concrete inputs\<close>

text \<open>
  A question shaped like \<open>SOUTH_AFRICA_QUESTION\<close> of the constants file, with the country
  and the region tag left open, a playing session in its second question, and an
  application state around a session and a question list.
\<close>

definition example_question :: "string \<Rightarrow> string option \<Rightarrow> Question" where
  "example_question c r =
     \<lparr>qid = 3, country = c, capital = ''Pretoria'', flagCode = ''za'',
      flagUrl = ''https://flagcdn.com/w640/za.png'', questionText = ''Which country?'',
      isCapitalQuestion = True,
      options = [\<lparr>id' = ''A'', label = ''A'', text' = ''Nigeria'', isCorrect = False\<rparr>,
                 \<lparr>id' = ''B'', label = ''B'', text' = ''South Africa'', isCorrect = True\<rparr>,
                 \<lparr>id' = ''C'', label = ''C'', text' = ''Brazil'', isCorrect = False\<rparr>,
                 \<lparr>id' = ''D'', label = ''D'', text' = ''Australia'', isCorrect = False\<rparr>],
      region = r\<rparr>"

definition playing_example :: GameState where
  "playing_example = initialGameState\<lparr>status := Playing, score := 125,
      consecutiveCorrect := 1, currentQuestionIndex := 1, timeLeft := 7\<rparr>"

definition example_app :: "GameState \<Rightarrow> Question list \<Rightarrow> AppState" where
  "example_app g qs =
     \<lparr>gameState = g, activeQuestions = qs, playerName = [], isScoreSaved = False,
      aiAnsweredRef = False, aiTriggerTimeRef = 1 / 2,
      localStorage = \<lparr>quiz_leaderboard = None, quiz_last_reset = None\<rparr>,
      timeouts = []\<rparr>"

section \<open>Question selector\<close>

text \<open>
  \<open>Math.random()\<close> is a source of draws: \<open>rnd n\<close> is the value of call number \<open>n\<close>
  since \<open>getWeightedQuestions\<close> was entered, and each shuffle is told the number of the
  first call it makes. The loop of \<open>shuffle\<close> runs \<open>i\<close> from \<open>length - 1\<close> down to 1
  and swaps the elements at \<open>i\<close> and \<open>j = floor (random * (i + 1))\<close>; the destructuring
  assignment reads both elements first and then writes index \<open>i\<close>, then index \<open>j\<close>.
\<close>

fun shuffle_loop :: "(nat \<Rightarrow> real) \<Rightarrow> nat \<Rightarrow> nat \<Rightarrow> 'a list \<Rightarrow> 'a list" where
  "shuffle_loop rnd c 0 newArr = newArr"
| "shuffle_loop rnd c (Suc k) newArr =
     (let i = Suc k;
          j = nat \<lfloor>rnd c * real (i + 1)\<rfloor>
      in shuffle_loop rnd (Suc c) k (newArr[i := newArr ! j, j := newArr ! i]))"

definition shuffle :: "(nat \<Rightarrow> real) \<Rightarrow> nat \<Rightarrow> 'a list \<Rightarrow> 'a list" where
  "shuffle rnd c arr = shuffle_loop rnd c (length arr - 1) arr"

text \<open>
  The two selection loops differ in their list and their limit only. The accumulator is
  \<open>selectedQuestions\<close> with \<open>selectedCountries\<close>; \<open>break\<close> returns it as it stands.
\<close>

fun select_loop ::
  "int \<Rightarrow> Question list \<Rightarrow> Question list \<times> string set \<Rightarrow> Question list \<times> string set" where
  "select_loop limit [] acc = acc"
| "select_loop limit (q # qs) (selectedQuestions, selectedCountries) =
     (if int (length selectedQuestions) \<ge> limit then (selectedQuestions, selectedCountries)
      else if country q \<notin> selectedCountries
           then select_loop limit qs
                  (selectedQuestions @ [q], insert (country q) selectedCountries)
           else select_loop limit qs (selectedQuestions, selectedCountries))"

definition targetEastAsiaCount :: int where
  "targetEastAsiaCount = 10"

definition getWeightedQuestions :: "(nat \<Rightarrow> real) \<Rightarrow> Question list \<Rightarrow> Question list" where
  "getWeightedQuestions rnd allQuestions =
     (let eastAsia = filter (\<lambda>q. region q = Some ''EastAsia'') allQuestions;
          others = filter (\<lambda>q. region q \<noteq> Some ''EastAsia'') allQuestions;
          shuffledEastAsia = shuffle rnd 0 eastAsia;
          c1 = length eastAsia - 1;
          shuffledOthers = shuffle rnd c1 others;
          c2 = c1 + (length others - 1);
          s1 = select_loop targetEastAsiaCount shuffledEastAsia ([], {});
          s2 = select_loop QUESTIONS_PER_GAME shuffledOthers s1
      in shuffle rnd c2 (fst s2))"

text \<open>
  \<open>startPlaying\<close>, with the question bank \<open>QUIZ_DATA\<close> (a data file) and the random
  source as parameters.
\<close>

definition startPlaying ::
  "(nat \<Rightarrow> real) \<Rightarrow> Question list \<Rightarrow> GameMode \<Rightarrow> Difficulty \<Rightarrow> AppState \<Rightarrow> AppState" where
  "startPlaying rnd QUIZ_DATA mode diff app =
     app\<lparr>activeQuestions := getWeightedQuestions rnd QUIZ_DATA,
         gameState :=
           \<lparr>status = Playing, gameMode = mode, difficulty = diff, score = 0,
            computerScore = 0, consecutiveCorrect = 0, computerConsecutiveCorrect = 0,
            currentQuestionIndex = 0, totalQuestions = QUESTIONS_PER_GAME,
            timeLeft = GAME_DURATION_SECONDS, selectedOptionId = None,
            isAnswerRevealed = False, isPaused = False, isHintActive = False,
            isExitConfirmOpen = False\<rparr>,
         playerName := [],
         isScoreSaved := False\<rparr>"

text \<open>A bank of four questions over three countries, two of them region-tagged.\<close>

definition example_bank :: "Question list" where
  "example_bank =
     [example_question ''Japan'' (Some ''EastAsia''),
      example_question ''Peru'' None,
      example_question ''Korea'' (Some ''EastAsia''),
      example_question ''Peru'' (Some ''Other'')]"

section \<open>Leaderboard store\<close>

text \<open>
  The characters of a \<^typ>\<open>string\<close> are the 256 characters of HOL; those among them that
  \<open>String.prototype.trim\<close> and \<open>parseInt\<close> skip as white space or line terminators are
  tab, line feed, vertical tab, form feed, carriage return, space and no-break space.
\<close>

definition isWhiteSpace :: "char \<Rightarrow> bool" where
  "isWhiteSpace c = (of_char c \<in> {9, 10, 11, 12, 13, 32, 160 :: nat})"

definition trim :: "string \<Rightarrow> string" where
  "trim s = rev (dropWhile isWhiteSpace (rev (dropWhile isWhiteSpace s)))"

text \<open>
  \<open>getLeaderboard\<close>: an absent key and a value that \<open>JSON.parse\<close> rejects both give the
  empty list. \<open>saveLeaderboard\<close> stores the entries as JSON, which parses back to them.
\<close>

definition getLeaderboard :: "LocalStorage \<Rightarrow> LeaderboardEntry list" where
  "getLeaderboard st =
     (case quiz_leaderboard st of
        None \<Rightarrow> []
      | Some Unparsable \<Rightarrow> []
      | Some (Parsed entries) \<Rightarrow> entries)"

definition saveLeaderboard :: "LeaderboardEntry list \<Rightarrow> LocalStorage \<Rightarrow> LocalStorage" where
  "saveLeaderboard entries st = st\<lparr>quiz_leaderboard := Some (Parsed entries)\<rparr>"

definition isHighScore :: "LocalStorage \<Rightarrow> int \<Rightarrow> bool" where
  "isHighScore st s =
     (if s \<le> 0 then False
      else (let leaderboard = getLeaderboard st in
            if length leaderboard < MAX_LEADERBOARD_ENTRIES then True
            else s > LeaderboardEntry.score (last leaderboard)))"

text \<open>
  \<open>handleSaveScore\<close>, with the value of \<open>Date.now()\<close> as a parameter.
  \<open>Array.prototype.sort\<close> is a stable sort; with the comparator \<open>b.score - a.score\<close> it
  orders by descending score, which is the stable \<^const>\<open>sort_key\<close> on the negated score.
\<close>

definition handleSaveScore :: "int \<Rightarrow> AppState \<Rightarrow> AppState" where
  "handleSaveScore now app =
     (if trim (playerName app) = [] then app
      else (let leaderboard = getLeaderboard (localStorage app);
                newEntry = \<lparr>name = take 10 (trim (playerName app)),
                            LeaderboardEntry.score = score (gameState app),
                            timestamp = now\<rparr>;
                pushed = leaderboard @ [newEntry];
                sorted' = sort_key (\<lambda>e. - LeaderboardEntry.score e) pushed;
                updatedLeaderboard = take MAX_LEADERBOARD_ENTRIES sorted'
            in app\<lparr>localStorage := saveLeaderboard updatedLeaderboard (localStorage app),
                    isScoreSaved := True,
                    timeouts := timeouts app @ [(500, ShowLeaderboard)]\<rparr>))"

text \<open>
  The finished single-player session of 150 points, and a stored board of eleven entries
  in no order.
\<close>

definition finished_example :: GameState where
  "finished_example = initialGameState\<lparr>status := Finished, score := 150\<rparr>"

definition example_board :: "LeaderboardEntry list" where
  "example_board =
     map (\<lambda>s. \<lparr>name = ''Ann'', LeaderboardEntry.score = s, timestamp = 1000\<rparr>)
       [300, 100, 500, 200, 400, 700, 600, 900, 800, 1000, 50]"

section \<open>Weekly reset\<close>

text \<open>
  \<open>parseInt\<close> with no radix argument: leading white space is skipped, a sign is read,
  the prefix \<open>0x\<close> or \<open>0X\<close> selects radix 16 and anything else radix 10, and the longest
  run of digits of that radix is the number; with no digit the result is \<open>NaN\<close>, here
  \<open>None\<close>. \<open>toString\<close> of an integer is its decimal numeral.
\<close>

definition digitValue :: "char \<Rightarrow> nat" where
  "digitValue c =
     (let n = of_char c :: nat in
      if 48 \<le> n \<and> n \<le> 57 then n - 48
      else if 97 \<le> n \<and> n \<le> 122 then n - 87
      else if 65 \<le> n \<and> n \<le> 90 then n - 55
      else 36)"

definition isRadixDigit :: "nat \<Rightarrow> char \<Rightarrow> bool" where
  "isRadixDigit R c = (digitValue c < R)"

definition parseInt :: "string \<Rightarrow> int option" where
  "parseInt inputString =
     (let S = dropWhile isWhiteSpace inputString;
          sign = (if S \<noteq> [] \<and> hd S = CHR ''-'' then - 1 else 1 :: int);
          S1 = (if S \<noteq> [] \<and> (hd S = CHR ''+'' \<or> hd S = CHR ''-'') then tl S else S);
          hex = (take 2 S1 = ''0x'' \<or> take 2 S1 = ''0X'');
          R = (if hex then 16 else 10);
          S2 = (if hex then drop 2 S1 else S1);
          Z = takeWhile (isRadixDigit R) S2
      in if Z = [] then None
         else Some (sign * int (foldl (\<lambda>acc c. acc * R + digitValue c) 0 Z)))"

fun digits :: "nat \<Rightarrow> string" where
  "digits n =
     (if n < 10 then [char_of (48 + n)]
      else digits (n div 10) @ [char_of (48 + n mod 10)])"

declare digits.simps [simp del]

definition toString :: "int \<Rightarrow> string" where
  "toString i = (if i < 0 then CHR ''-'' # digits (nat (- i)) else digits (nat i))"

text \<open>
  A \<open>Date\<close> is its time value, milliseconds since the epoch. The time zone of the
  browser is a parameter: \<open>LocalTZA t isUTC\<close> is the offset of local time from UTC at
  \<open>t\<close>, in milliseconds, where \<open>t\<close> is a UTC time value when \<open>isUTC\<close> holds and a local
  one otherwise (a zone with daylight saving has different offsets at different times).
  \<open>LocalTime\<close> and \<open>UTC_time\<close> convert between the two. With them, \<open>getDay\<close> is the
  week day of the local day number (day 0 was a Thursday, and 0 is Sunday);
  \<open>d.setDate(d.getDate() - k)\<close> takes the local time of \<open>d\<close>, moves its day number back
  by \<open>k\<close> (days of the month below 1 run on into the month before) at the same time of
  day and converts back; \<open>setHours(0, 0, 0, 0)\<close> takes the local time, sets the time
  of day to 0 and converts back.
\<close>

type_synonym TimeZone = "int \<Rightarrow> bool \<Rightarrow> int"

definition msPerDay :: int where
  "msPerDay = 86400000"

definition LocalTime :: "TimeZone \<Rightarrow> int \<Rightarrow> int" where
  "LocalTime LocalTZA t = t + LocalTZA t True"

definition UTC_time :: "TimeZone \<Rightarrow> int \<Rightarrow> int" where
  "UTC_time LocalTZA t = t - LocalTZA t False"

definition Date_getDay :: "TimeZone \<Rightarrow> int \<Rightarrow> int" where
  "Date_getDay LocalTZA t = (LocalTime LocalTZA t div msPerDay + 4) mod 7"

definition Date_setDate_back :: "TimeZone \<Rightarrow> int \<Rightarrow> int \<Rightarrow> int" where
  "Date_setDate_back LocalTZA t k = UTC_time LocalTZA (LocalTime LocalTZA t - k * msPerDay)"

definition Date_setHours0 :: "TimeZone \<Rightarrow> int \<Rightarrow> int" where
  "Date_setHours0 LocalTZA t =
     UTC_time LocalTZA ((LocalTime LocalTZA t div msPerDay) * msPerDay)"

text \<open>
  \<open>distanceToMonday\<close> and the time value of \<open>lastMonday\<close> as \<open>checkWeeklyReset\<close>
  computes them from \<open>now\<close>.
\<close>

definition distanceToMonday :: "TimeZone \<Rightarrow> int \<Rightarrow> int" where
  "distanceToMonday LocalTZA now =
     (let currentDay = Date_getDay LocalTZA now in (currentDay + 6) mod 7)"

definition lastMonday :: "TimeZone \<Rightarrow> int \<Rightarrow> int" where
  "lastMonday LocalTZA now =
     Date_setHours0 LocalTZA
       (Date_setDate_back LocalTZA now (distanceToMonday LocalTZA now))"

text \<open>
  \<open>checkWeeklyReset\<close>, with the time zone and the time value of \<open>new Date()\<close> as
  parameters. \<open>!lastResetStr\<close> holds for an absent key and for the empty string, and
  a comparison with \<open>NaN\<close> is false.
\<close>

definition checkWeeklyReset :: "TimeZone \<Rightarrow> int \<Rightarrow> LocalStorage \<Rightarrow> LocalStorage" where
  "checkWeeklyReset LocalTZA now st =
     (if (case quiz_last_reset st of
            None \<Rightarrow> True
          | Some lastResetStr \<Rightarrow>
              lastResetStr = [] \<or>
              (case parseInt lastResetStr of
                 None \<Rightarrow> False
               | Some t \<Rightarrow> t < lastMonday LocalTZA now))
      then st\<lparr>quiz_leaderboard := None, quiz_last_reset := Some (toString now)\<rparr>
      else st)"

text \<open>
  A local time value is on the wall clock of the zone when converting it to UTC and back
  gives it again; the hour that a change to daylight saving skips is not.
\<close>

definition wall_clock_exists :: "TimeZone \<Rightarrow> int \<Rightarrow> bool" where
  "wall_clock_exists LocalTZA t = (LocalTime LocalTZA (UTC_time LocalTZA t) = t)"

text \<open>
  The zone of New York in 2026: four hours behind UTC from 8 March 07:00 UTC to
  1 November 06:00 UTC, five hours behind otherwise. A local time in the skipped or in
  the repeated hour is read with the offset from before the change.
\<close>

definition new_york_2026 :: TimeZone where
  "new_york_2026 t isUTC =
     (if isUTC
      then (if 1772953200000 \<le> t \<and> t < 1793512800000 then - 14400000 else - 18000000)
      else (if 1772938800000 \<le> t \<and> t < 1793498400000 then - 14400000 else - 18000000))"

section \<open>Properties\<close>

text \<open>
  C1. The scoring function agrees with the reference definition of the specification on
  every score, every combo counter and both flags: a correct answer without hint adds
  \<open>100 + 25 * combo\<close> and increments the combo, a correct answer with hint adds nothing
  and resets the combo, an incorrect answer subtracts 50 (no floor at zero) and resets
  the combo.
\<close>

theorem calculateNewScoreState_refines_spec:
  "calculateNewScoreState s combo c h = applyOutcome_spec s combo c h
   \<and> calculateNewScoreState s combo True False = (s + 100 + 25 * combo, combo + 1)
   \<and> calculateNewScoreState s combo True True = (s, 0)
   \<and> calculateNewScoreState s combo False h = (s - 50, 0)"
  by (cases c; cases h; simp add: calculateNewScoreState_def)

subsection \<open>Timeout resolution\<close>

lemma timeout_update_player:
  "score (snd (timeout_update rnd (answered, prev))) = score prev - 50
   \<and> consecutiveCorrect (snd (timeout_update rnd (answered, prev))) = 0
   \<and> isAnswerRevealed (snd (timeout_update rnd (answered, prev)))"
  by (simp add: timeout_update_def executeAIAnswer_def Let_def)

text \<open>
  C9. The forced-timeout resolution changes the player's score and combo exactly as the
  incorrect-answer branch of the scoring engine does. For every state in which the timer
  effect resolves a timeout (the session is playing, no time is left, the answer is not
  revealed, the session is not paused and no exit confirmation is open), in either game
  mode and whatever the opponent does in the same update, the state after the effect has
  the player's score decreased by exactly 50 and the player's combo at 0, which is
  \<open>calculateNewScoreState\<close> of the score and combo before the timeout at
  \<open>isCorrect = false\<close> (with or without hint); the answer is then revealed.
\<close>

theorem timeout_resolution_player_penalty:
  assumes "status (gameState app) = Playing"
    and "timeLeft (gameState app) \<le> 0"
    and "\<not> isAnswerRevealed (gameState app)"
    and "\<not> isPaused (gameState app)"
    and "\<not> isExitConfirmOpen (gameState app)"
  shows "score (gameState (timer_effect rnd app)) = score (gameState app) - 50
    \<and> consecutiveCorrect (gameState (timer_effect rnd app)) = 0
    \<and> (score (gameState (timer_effect rnd app)),
        consecutiveCorrect (gameState (timer_effect rnd app)))
       = calculateNewScoreState (score (gameState app)) (consecutiveCorrect (gameState app))
           False h
    \<and> isAnswerRevealed (gameState (timer_effect rnd app))"
proof -
  have eff: "gameState (timer_effect rnd app)
               = snd (timeout_update rnd (aiAnsweredRef app, gameState app))"
    using assms by (simp add: timer_effect_def Let_def)
  show ?thesis
    unfolding eff
    using timeout_update_player [of rnd "aiAnsweredRef app" "gameState app"]
    by (simp add: calculateNewScoreState_def)
qed

text \<open>
  A single-player session with 125 points and a combo of 1 whose time has run out: after
  the timer effect the player has 75 points, no combo, and the answer is revealed.
\<close>

theorem timeout_resolution_player_penalty_witness:
  "score (gameState (timer_effect 0 (example_app (playing_example\<lparr>timeLeft := 0\<rparr>) [])))
     = 75
   \<and> consecutiveCorrect
       (gameState (timer_effect 0 (example_app (playing_example\<lparr>timeLeft := 0\<rparr>) []))) = 0
   \<and> isAnswerRevealed
       (gameState (timer_effect 0 (example_app (playing_example\<lparr>timeLeft := 0\<rparr>) [])))"
  using timeout_resolution_player_penalty
    [of "example_app (playing_example\<lparr>timeLeft := 0\<rparr>) []" 0 False]
  by (simp add: example_app_def playing_example_def initialGameState_def)

text \<open>
  C2 (as amended). In pve mode, when the timer effect finds no time left and the opponent
  has not answered this question, the opponent answers in the timeout update through the
  same scoring call as everywhere else, with \<open>hintUsed = false\<close> and with the correctness
  drawn at random against the accuracy of the difficulty: the opponent's score and combo
  become \<open>calculateNewScoreState\<close> of the old ones and that draw, and the answered flag is
  set. Only when the draw fails does the opponent lose 50 points and the combo; when it
  succeeds the opponent gains \<open>100 + 25 * combo\<close> and the combo grows by one.
\<close>

theorem timeout_forces_opponent_answer:
  assumes "status (gameState app) = Playing" and "gameMode (gameState app) = Pve"
    and "timeLeft (gameState app) \<le> 0" and "\<not> isAnswerRevealed (gameState app)"
    and "\<not> isPaused (gameState app)" and "\<not> isExitConfirmOpen (gameState app)"
    and "\<not> aiAnsweredRef app"
  shows "(computerScore (gameState (timer_effect rnd app)),
          computerConsecutiveCorrect (gameState (timer_effect rnd app)))
         = calculateNewScoreState (computerScore (gameState app))
             (computerConsecutiveCorrect (gameState app))
             (rnd < accuracy (AI_CONFIG (difficulty (gameState app)))) False
     \<and> aiAnsweredRef (timer_effect rnd app)
     \<and> (if rnd < accuracy (AI_CONFIG (difficulty (gameState app)))
        then computerScore (gameState (timer_effect rnd app))
               = computerScore (gameState app) + 100
                 + 25 * computerConsecutiveCorrect (gameState app)
             \<and> computerConsecutiveCorrect (gameState (timer_effect rnd app))
               = computerConsecutiveCorrect (gameState app) + 1
        else computerScore (gameState (timer_effect rnd app))
               = computerScore (gameState app) - 50
             \<and> computerConsecutiveCorrect (gameState (timer_effect rnd app)) = 0)"
  using assms
  by (simp add: timer_effect_def timeout_update_def executeAIAnswer_def
      calculateNewScoreState_def Let_def)

text \<open>
  The amended statement at a pve session on difficulty 1 with no time left and a failed
  draw (0.75 against accuracy 0.5): the opponent has answered and stands at -50.
\<close>

theorem timeout_forces_opponent_answer_witness:
  "aiAnsweredRef (timer_effect (3 / 4)
      (example_app (playing_example\<lparr>gameMode := Pve, difficulty := Easy, timeLeft := 0\<rparr>) []))
   \<and> computerScore (gameState (timer_effect (3 / 4)
      (example_app (playing_example\<lparr>gameMode := Pve, difficulty := Easy, timeLeft := 0\<rparr>) [])))
     = - 50"
  using timeout_forces_opponent_answer
    [of "example_app (playing_example\<lparr>gameMode := Pve, difficulty := Easy, timeLeft := 0\<rparr>) []"
        "3 / 4"]
  by (simp add: example_app_def playing_example_def initialGameState_def)

text \<open>
  The claim as first stated (the opponent always loses 50 points and the combo at a
  timeout) fails when the draw succeeds: a fresh pve session on difficulty 1, no time
  left, opponent not yet answered, draw 0.25 against accuracy 0.5. The opponent ends the
  timeout with 100 points and a combo of 1.
\<close>

theorem timeout_opponent_counterexample:
  "computerScore (gameState (timer_effect (1 / 4)
      (example_app (initialGameState\<lparr>status := Playing, gameMode := Pve,
                                     difficulty := Easy, timeLeft := 0\<rparr>) []))) = 100
   \<and> computerConsecutiveCorrect (gameState (timer_effect (1 / 4)
      (example_app (initialGameState\<lparr>status := Playing, gameMode := Pve,
                                     difficulty := Easy, timeLeft := 0\<rparr>) []))) = 1"
  by (simp add: timer_effect_def timeout_update_def executeAIAnswer_def
      calculateNewScoreState_def example_app_def initialGameState_def Let_def)

subsection \<open>Exit, restart and the pending advance\<close>

text \<open>
  C3 (as amended). Confirming an exit sets the status to \<open>start\<close>, closes the
  exit-confirmation flag and empties the active question list, so that the start screen
  is rendered; every other field of the session (scores, combos, question index, time
  left, the remaining flags) keeps the value it had. The fresh initial state is what
  \<open>handleRestartGame\<close> installs.
\<close>

theorem handleConfirmExit_effect:
  "gameState (handleConfirmExit app)
     = (gameState app)\<lparr>status := Start, isExitConfirmOpen := False\<rparr>
   \<and> status (gameState (handleConfirmExit app)) = Start
   \<and> \<not> isExitConfirmOpen (gameState (handleConfirmExit app))
   \<and> activeQuestions (handleConfirmExit app) = []
   \<and> score (gameState (handleConfirmExit app)) = score (gameState app)
   \<and> computerScore (gameState (handleConfirmExit app)) = computerScore (gameState app)
   \<and> consecutiveCorrect (gameState (handleConfirmExit app))
       = consecutiveCorrect (gameState app)
   \<and> currentQuestionIndex (gameState (handleConfirmExit app))
       = currentQuestionIndex (gameState app)
   \<and> timeLeft (gameState (handleConfirmExit app)) = timeLeft (gameState app)
   \<and> render (handleConfirmExit app) = StartScreen
   \<and> gameState (handleRestartGame (handleConfirmExit app)) = initialGameState"
  by (simp add: handleConfirmExit_def handleRestartGame_def render_def initialGameState_def)

text \<open>
  The claim as first stated fails: a playing session in its second question with 125
  points, exit requested and confirmed, is not the fresh initial state; the score is
  still 125.
\<close>

theorem handleConfirmExit_counterexample:
  "gameState (handleConfirmExit (handleExitRequest
      (example_app playing_example [example_question ''Japan'' (Some ''EastAsia''),
                                    example_question ''Peru'' None])))
   \<noteq> initialGameState
   \<and> score (gameState (handleConfirmExit (handleExitRequest
      (example_app playing_example [example_question ''Japan'' (Some ''EastAsia''),
                                    example_question ''Peru'' None])))) = 125"
  by (simp add: handleConfirmExit_def handleExitRequest_def example_app_def
      playing_example_def initialGameState_def)

lemma handleNext_update_fixed:
  "handleNext_update g = g \<longleftrightarrow>
     (currentQuestionIndex g + 1 \<ge> totalQuestions g \<and> status g = Finished)"
proof (cases "currentQuestionIndex g + 1 \<ge> totalQuestions g")
  case True
  have "g\<lparr>status := Finished\<rparr> = g \<longleftrightarrow> status g = Finished"
    by (cases g) auto
  with True show ?thesis by (simp add: handleNext_update_def Let_def)
next
  case False
  have "currentQuestionIndex (handleNext_update g) \<noteq> currentQuestionIndex g"
    using False by (simp add: handleNext_update_def Let_def)
  then have "handleNext_update g \<noteq> g" by auto
  with False show ?thesis by simp
qed

text \<open>
  C4 (as amended). A pending post-reveal advance carries no check of the status or of the
  question index: when it fires it applies the advance to whatever the session state then
  is. It leaves the state unchanged only when the state is already \<open>finished\<close> at its
  last index; in every other state it moves the question index on or sets the status to
  \<open>finished\<close>. Neither the exit confirmation nor the restart removes a pending advance.
\<close>

theorem stale_advance_unguarded:
  assumes "timeouts app = (d, HandleNext) # rest"
  shows "gameState (fire_timeout app) = handleNext_update (gameState app)
    \<and> (gameState (fire_timeout app) = gameState app \<longleftrightarrow>
         (currentQuestionIndex (gameState app) + 1 \<ge> totalQuestions (gameState app)
          \<and> status (gameState app) = Finished))
    \<and> timeouts (handleConfirmExit app) = timeouts app
    \<and> timeouts (handleRestartGame app) = timeouts app"
  using assms handleNext_update_fixed [of "gameState app"]
  by (simp add: fire_timeout_def handleNext_def handleConfirmExit_def handleRestartGame_def)

text \<open>
  The amended statement at the fresh state with one pending advance: firing it moves the
  question index from 0 to 1.
\<close>

theorem stale_advance_unguarded_witness:
  "currentQuestionIndex (gameState (fire_timeout
      ((example_app initialGameState [])\<lparr>timeouts := [(1500, HandleNext)]\<rparr>))) = 1"
  using stale_advance_unguarded
    [of "(example_app initialGameState [])\<lparr>timeouts := [(1500, HandleNext)]\<rparr>" 1500 "[]"]
  by (simp add: example_app_def initialGameState_def handleNext_update_def
      QUESTIONS_PER_GAME_def GAME_DURATION_SECONDS_def)

text \<open>
  The claim as first stated fails: the player answers the second question, requests the
  exit and confirms it before the advance fires. The status is then \<open>start\<close>, and the
  advance still changes the session state; after a restart it moves the fresh state to
  question index 1.
\<close>

theorem stale_advance_counterexample:
  "status (gameState (handleConfirmExit (handleExitRequest (handleSelectOption 0 ''B''
      (example_app playing_example [example_question ''Japan'' (Some ''EastAsia''),
                                    example_question ''Peru'' None]))))) = Start
   \<and> gameState (fire_timeout (handleConfirmExit (handleExitRequest (handleSelectOption 0 ''B''
      (example_app playing_example [example_question ''Japan'' (Some ''EastAsia''),
                                    example_question ''Peru'' None])))))
     \<noteq> gameState (handleConfirmExit (handleExitRequest (handleSelectOption 0 ''B''
      (example_app playing_example [example_question ''Japan'' (Some ''EastAsia''),
                                    example_question ''Peru'' None]))))
   \<and> currentQuestionIndex (gameState (fire_timeout (handleRestartGame
      (handleConfirmExit (handleExitRequest (handleSelectOption 0 ''B''
      (example_app playing_example [example_question ''Japan'' (Some ''EastAsia''),
                                    example_question ''Peru'' None]))))))) = 1"
  by (simp add: fire_timeout_def handleNext_def handleNext_update_def handleConfirmExit_def
      handleExitRequest_def handleRestartGame_def handleSelectOption_def at_index_def
      calculateNewScoreState_def example_app_def example_question_def playing_example_def
      initialGameState_def QUESTIONS_PER_GAME_def GAME_DURATION_SECONDS_def Let_def)

subsection \<open>Missing question data\<close>

text \<open>
  C5 (as amended). When the session is playing and the active question list has no
  question at the current index, nothing is rendered exactly when the list is empty; when
  the list is not empty its first question is rendered in place of the missing one. The
  render never reaches the playing screen without a question, and selecting an answer in
  that situation changes nothing (no scoring, no reveal, no advance scheduled).
\<close>

theorem missing_question_guard:
  assumes "status (gameState app) = Playing"
    and "at_index (activeQuestions app) (currentQuestionIndex (gameState app)) = None"
  shows "(render app = Nothing \<longleftrightarrow> activeQuestions app = [])
    \<and> (if activeQuestions app = [] then render app = Nothing
        else render app = PlayingScreen (hd (activeQuestions app)))
    \<and> render app \<noteq> RenderError
    \<and> handleSelectOption rnd oid app = app"
  using assms
  by (cases "activeQuestions app")
     (simp_all add: render_def currentQuestionData_def at_index_def handleSelectOption_def
       Let_def)

text \<open>The amended statement at a playing session with an empty question list.\<close>

theorem missing_question_guard_witness:
  "render (example_app playing_example []) = Nothing
   \<and> handleSelectOption 0 ''A'' (example_app playing_example [])
     = example_app playing_example []"
  using missing_question_guard [of "example_app playing_example []" 0 "''A''"]
  by (simp add: example_app_def playing_example_def initialGameState_def at_index_def)

text \<open>
  The claim as first stated fails: a playing session at question index 1 over a list of
  one question has no question at its index, and the render shows the first question of
  the list instead of nothing. Nor does the missing question hold the session where it
  is: with no time left the timer effect still schedules the advance, which moves the
  session from index 1 to index 2.
\<close>

theorem missing_question_counterexample:
  "at_index [example_question ''Peru'' None] 1 = None
   \<and> render (example_app playing_example [example_question ''Peru'' None])
      = PlayingScreen (example_question ''Peru'' None)
   \<and> currentQuestionIndex (gameState (fire_timeout (timer_effect 0
        (example_app (playing_example\<lparr>timeLeft := 0\<rparr>)
           [example_question ''Peru'' None])))) = 2"
  by (simp add: render_def currentQuestionData_def at_index_def example_app_def
      playing_example_def initialGameState_def timer_effect_def timeout_update_def
      fire_timeout_def handleNext_def handleNext_update_def QUESTIONS_PER_GAME_def
      GAME_DURATION_SECONDS_def Let_def)

subsection \<open>Question selector\<close>

lemma draw_index_le:
  assumes "0 \<le> r" and "r < 1"
  shows "nat \<lfloor>r * real (Suc i)\<rfloor> \<le> i"
proof -
  have "r * real (Suc i) < real (Suc i)" using assms by simp
  then have "\<lfloor>r * real (Suc i)\<rfloor> < int (Suc i)" by (simp add: floor_less_iff)
  then show ?thesis by simp
qed

lemma mset_shuffle_loop:
  assumes "\<forall>n. 0 \<le> rnd n \<and> rnd n < 1"
  shows "k < length xs \<or> xs = [] \<Longrightarrow> mset (shuffle_loop rnd c k xs) = mset xs"
proof (induction k arbitrary: c xs)
  case 0
  then show ?case by simp
next
  case (Suc k)
  show ?case
  proof (cases "xs = []")
    case True
    then show ?thesis using Suc.IH [of "[]"] by (simp add: Let_def)
  next
    case False
    with Suc.prems have lt: "Suc k < length xs" by simp
    define j where "j = nat \<lfloor>rnd c * real (Suc (Suc k))\<rfloor>"
    have "j \<le> Suc k" unfolding j_def using assms draw_index_le by blast
    with lt have jlt: "j < length xs" by simp
    let ?ys = "xs[Suc k := xs ! j, j := xs ! Suc k]"
    have "mset ?ys = mset xs" using mset_swap [OF jlt lt] .
    moreover have "k < length ?ys" using lt by simp
    then have "mset (shuffle_loop rnd (Suc c) k ?ys) = mset ?ys" using Suc.IH by blast
    ultimately show ?thesis by (simp add: Let_def j_def)
  qed
qed

lemma mset_shuffle:
  assumes "\<forall>n. 0 \<le> rnd n \<and> rnd n < 1"
  shows "mset (shuffle rnd c xs) = mset xs"
  unfolding shuffle_def
  by (rule mset_shuffle_loop [OF assms]) (cases xs, simp_all)

lemma select_loop_extends:
  "\<exists>ys. fst (select_loop limit qs (sel, cs)) = sel @ ys \<and> set ys \<subseteq> set qs"
proof (induction qs arbitrary: sel cs)
  case Nil
  then show ?case by simp
next
  case (Cons q qs)
  show ?case
  proof (cases "int (length sel) \<ge> limit")
    case True
    then show ?thesis by simp
  next
    case False
    show ?thesis
    proof (cases "country q \<in> cs")
      case True
      from Cons.IH [of sel cs] obtain ys
        where "fst (select_loop limit qs (sel, cs)) = sel @ ys" "set ys \<subseteq> set qs" by blast
      with True False show ?thesis by auto
    next
      case nin: False
      from Cons.IH [of "sel @ [q]" "insert (country q) cs"] obtain ys
        where "fst (select_loop limit qs (sel @ [q], insert (country q) cs)) = (sel @ [q]) @ ys"
          "set ys \<subseteq> set qs" by blast
      then have "fst (select_loop limit (q # qs) (sel, cs)) = sel @ (q # ys)
                 \<and> set (q # ys) \<subseteq> set (q # qs)"
        using nin False by auto
      then show ?thesis by blast
    qed
  qed
qed

lemma select_loop_length:
  "int (length (fst (select_loop limit qs (sel, cs)))) \<le> max limit (int (length sel))"
proof (induction qs arbitrary: sel cs)
  case Nil
  then show ?case by simp
next
  case (Cons q qs)
  show ?case
    using Cons.IH [of sel cs] Cons.IH [of "sel @ [q]" "insert (country q) cs"]
    by (cases "int (length sel) \<ge> limit"; cases "country q \<in> cs") auto
qed

lemma select_loop_invariant:
  assumes "distinct (map country sel)" and "cs = set (map country sel)"
  shows "distinct (map country (fst (select_loop limit qs (sel, cs))))
         \<and> snd (select_loop limit qs (sel, cs))
           = set (map country (fst (select_loop limit qs (sel, cs))))"
  using assms
proof (induction qs arbitrary: sel cs)
  case Nil
  then show ?case by simp
next
  case (Cons q qs)
  show ?case
  proof (cases "int (length sel) \<ge> limit")
    case True
    with Cons.prems show ?thesis by simp
  next
    case False
    show ?thesis
    proof (cases "country q \<in> cs")
      case True
      with False Cons.IH [OF Cons.prems] show ?thesis by simp
    next
      case nin: False
      have d: "distinct (map country (sel @ [q]))" using Cons.prems nin by simp
      have c: "insert (country q) cs = set (map country (sel @ [q]))"
        using Cons.prems by simp
      have step: "select_loop limit (q # qs) (sel, cs)
                  = select_loop limit qs (sel @ [q], insert (country q) cs)"
        using False nin by simp
      show ?thesis unfolding step by (rule Cons.IH [OF d c])
    qed
  qed
qed

lemma example_question_fields:
  "country (example_question c r) = c" "region (example_question c r) = r"
  by (simp_all add: example_question_def)

text \<open>
  C6. For every question bank and every sequence of draws that \<open>Math.random()\<close> can
  return (values in the interval from 0, included, to 1, excluded), the selector returns
  at most \<open>QUESTIONS_PER_GAME = 20\<close> questions, no two of them of the same country,
  at most 10 of them with the region tag \<open>EastAsia\<close> (however many tagged questions the
  bank holds, so in particular when it holds 10 or more), all taken from the bank.
\<close>

theorem getWeightedQuestions_properties:
  assumes "\<forall>n. 0 \<le> rnd n \<and> rnd n < 1"
  shows "int (length (getWeightedQuestions rnd bank)) \<le> QUESTIONS_PER_GAME
    \<and> length (getWeightedQuestions rnd bank) \<le> 20
    \<and> distinct (map country (getWeightedQuestions rnd bank))
    \<and> length (filter (\<lambda>q. region q = Some ''EastAsia'') (getWeightedQuestions rnd bank))
        \<le> 10
    \<and> set (getWeightedQuestions rnd bank) \<subseteq> set bank"
proof -
  let ?EA = "\<lambda>q. region q = Some ''EastAsia''"
  define ea where "ea = shuffle rnd 0 (filter ?EA bank)"
  define oth where
    "oth = shuffle rnd (length (filter ?EA bank) - 1) (filter (\<lambda>q. \<not> ?EA q) bank)"
  define c2 where
    "c2 = length (filter ?EA bank) - 1 + (length (filter (\<lambda>q. \<not> ?EA q) bank) - 1)"
  obtain s1 c1 where s1: "select_loop targetEastAsiaCount ea ([], {}) = (s1, c1)"
    by (cases "select_loop targetEastAsiaCount ea ([], {})")
  define sel where "sel = fst (select_loop QUESTIONS_PER_GAME oth (s1, c1))"
  have res: "getWeightedQuestions rnd bank = shuffle rnd c2 sel"
    by (simp only: getWeightedQuestions_def Let_def ea_def [symmetric] oth_def [symmetric]
        c2_def [symmetric] s1 sel_def [symmetric])
  have m: "mset (getWeightedQuestions rnd bank) = mset sel"
    unfolding res by (rule mset_shuffle [OF assms])
  have set_ea: "set ea = set (filter ?EA bank)"
    unfolding ea_def by (rule mset_eq_setD [OF mset_shuffle [OF assms]])
  have set_oth: "set oth = set (filter (\<lambda>q. \<not> ?EA q) bank)"
    unfolding oth_def by (rule mset_eq_setD [OF mset_shuffle [OF assms]])
  have s1_sub: "set s1 \<subseteq> set ea"
    using select_loop_extends [of targetEastAsiaCount ea "[]" "{}"] s1 by auto
  have s1_len: "length s1 \<le> 10"
    using select_loop_length [of targetEastAsiaCount ea "[]" "{}"] s1
    by (simp add: targetEastAsiaCount_def)
  have s1_inv: "distinct (map country s1) \<and> c1 = set (map country s1)"
    using select_loop_invariant [of "[]" "{}" targetEastAsiaCount ea] s1 by simp
  obtain ys where ys: "sel = s1 @ ys" "set ys \<subseteq> set oth"
    unfolding sel_def using select_loop_extends [of QUESTIONS_PER_GAME oth s1 c1] by blast
  have sel_len: "length sel \<le> 20"
    unfolding sel_def
    using select_loop_length [of QUESTIONS_PER_GAME oth s1 c1] s1_len
    by (simp add: QUESTIONS_PER_GAME_def)
  have sel_dist: "distinct (map country sel)"
    unfolding sel_def
    using select_loop_invariant [of s1 c1 QUESTIONS_PER_GAME oth] s1_inv by blast
  have "\<forall>q \<in> set ys. \<not> ?EA q" using ys(2) set_oth by auto
  then have "filter ?EA ys = []" by (simp add: filter_empty_conv)
  then have "filter ?EA sel = filter ?EA s1" using ys(1) by simp
  then have "length (filter ?EA sel) \<le> length s1" by simp
  then have sel_ea: "length (filter ?EA sel) \<le> 10" using s1_len by linarith
  have sel_sub: "set sel \<subseteq> set bank"
    using ys s1_sub set_ea set_oth by auto
  have len: "length (getWeightedQuestions rnd bank) = length sel"
    using m by (rule mset_eq_length)
  have "mset (map country (getWeightedQuestions rnd bank)) = mset (map country sel)"
    using m by simp
  then have dist: "distinct (map country (getWeightedQuestions rnd bank))"
    using sel_dist mset_eq_imp_distinct_iff by blast
  have "mset (filter ?EA (getWeightedQuestions rnd bank)) = mset (filter ?EA sel)"
    using m by simp
  then have cnt: "length (filter ?EA (getWeightedQuestions rnd bank)) = length (filter ?EA sel)"
    by (rule mset_eq_length)
  have sub: "set (getWeightedQuestions rnd bank) \<subseteq> set bank"
    using mset_eq_setD [OF m] sel_sub by simp
  show ?thesis using len sel_len dist cnt sel_ea sub by (simp add: QUESTIONS_PER_GAME_def)
qed

text \<open>
  The selector on the example bank with every draw 0.5: Japan and Korea are taken from the
  tagged questions, the first Peru question from the others, the second Peru question is
  refused for its country, and the last shuffle swaps the last two.
\<close>

theorem getWeightedQuestions_properties_witness:
  "getWeightedQuestions (\<lambda>n. 1 / 2) example_bank
     = [example_question ''Japan'' (Some ''EastAsia''), example_question ''Peru'' None,
        example_question ''Korea'' (Some ''EastAsia'')]
   \<and> distinct (map country (getWeightedQuestions (\<lambda>n. 1 / 2) example_bank))
   \<and> length (getWeightedQuestions (\<lambda>n. 1 / 2) example_bank) \<le> 20"
  using getWeightedQuestions_properties [of "\<lambda>n. 1 / 2" example_bank]
  by (simp add: getWeightedQuestions_def example_bank_def example_question_fields shuffle_def
      targetEastAsiaCount_def QUESTIONS_PER_GAME_def Let_def eval_nat_numeral)

subsection \<open>Leaderboard\<close>

lemma trim_empty_iff: "trim s = [] \<longleftrightarrow> (\<forall>c \<in> set s. isWhiteSpace c)"
proof
  assume "trim s = []"
  then have "dropWhile isWhiteSpace (rev (dropWhile isWhiteSpace s)) = []"
    by (simp add: trim_def)
  then have "\<forall>c \<in> set (dropWhile isWhiteSpace s). isWhiteSpace c"
    by simp
  then have "dropWhile isWhiteSpace s = []"
    using hd_dropWhile [of isWhiteSpace s] hd_in_set [of "dropWhile isWhiteSpace s"]
    by blast
  then show "\<forall>c \<in> set s. isWhiteSpace c" by simp
next
  assume "\<forall>c \<in> set s. isWhiteSpace c"
  then have d: "dropWhile isWhiteSpace s = []" by simp
  show "trim s = []" unfolding trim_def d by simp
qed

lemma sorted_desc_sort_key:
  "sorted_wrt (\<lambda>a b. LeaderboardEntry.score a \<ge> LeaderboardEntry.score b)
     (sort_key (\<lambda>e. - LeaderboardEntry.score e) xs)"
proof -
  have "sorted (map (\<lambda>e. - LeaderboardEntry.score e)
          (sort_key (\<lambda>e. - LeaderboardEntry.score e) xs))"
    by (rule sorted_sort_key)
  then show ?thesis by (simp add: sorted_map)
qed

lemma sorted_wrt_take_desc:
  "sorted_wrt P xs \<Longrightarrow> sorted_wrt P (take n xs)"
  by (metis append_take_drop_id sorted_wrt_append)

lemma trim_example: "trim ''  Bob the Builder '' = ''Bob the Builder''"
  by (simp add: trim_def isWhiteSpace_def)

text \<open>
  C7 (as amended). For every stored leaderboard (absent, unparsable or any list of
  entries, sorted or not) and every submission whose name is not blank,
  \<open>handleSaveScore\<close> appends an entry whose name is the trimmed name cut to 10
  characters, with the session score and the current time, sorts by descending score,
  keeps the first 10 and persists that list: what is stored afterwards is sorted by
  descending score and has at most 10 entries.
\<close>

theorem handleSaveScore_persists_top10:
  assumes "trim (playerName app) \<noteq> []"
  shows "quiz_leaderboard (localStorage (handleSaveScore now app))
           = Some (Parsed (getLeaderboard (localStorage (handleSaveScore now app))))
    \<and> getLeaderboard (localStorage (handleSaveScore now app))
        = take 10 (sort_key (\<lambda>e. - LeaderboardEntry.score e)
            (getLeaderboard (localStorage app)
             @ [\<lparr>name = take 10 (trim (playerName app)),
                 LeaderboardEntry.score = score (gameState app),
                 timestamp = now\<rparr>]))
    \<and> length (take 10 (trim (playerName app))) \<le> 10
    \<and> sorted_wrt (\<lambda>a b. LeaderboardEntry.score a \<ge> LeaderboardEntry.score b)
         (getLeaderboard (localStorage (handleSaveScore now app)))
    \<and> length (getLeaderboard (localStorage (handleSaveScore now app))) \<le> 10"
  using assms sorted_wrt_take_desc [OF sorted_desc_sort_key]
  by (simp add: handleSaveScore_def saveLeaderboard_def getLeaderboard_def Let_def
      MAX_LEADERBOARD_ENTRIES_def)

text \<open>
  A submission of 150 points under the name \<open>Bob the Builder\<close>, padded with blanks,
  over a stored board of eleven unsorted entries: ten entries remain, in descending
  order, the entry of 50 points is gone and the new entry carries the name cut to 10
  characters.
\<close>

theorem handleSaveScore_persists_top10_witness:
  "map LeaderboardEntry.score (getLeaderboard (localStorage (handleSaveScore 1700000000000
      ((example_app finished_example [])
         \<lparr>playerName := ''  Bob the Builder '',
          localStorage := \<lparr>quiz_leaderboard = Some (Parsed example_board),
                            quiz_last_reset = None\<rparr>\<rparr>))))
     = [1000, 900, 800, 700, 600, 500, 400, 300, 200, 150]
   \<and> map name (filter (\<lambda>e. LeaderboardEntry.score e = 150)
        (getLeaderboard (localStorage (handleSaveScore 1700000000000
          ((example_app finished_example [])
             \<lparr>playerName := ''  Bob the Builder '',
              localStorage := \<lparr>quiz_leaderboard = Some (Parsed example_board),
                                quiz_last_reset = None\<rparr>\<rparr>)))))
     = [''Bob the Bu'']"
  using handleSaveScore_persists_top10
    [of "(example_app finished_example [])
           \<lparr>playerName := ''  Bob the Builder '',
            localStorage := \<lparr>quiz_leaderboard = Some (Parsed example_board),
                              quiz_last_reset = None\<rparr>\<rparr>" 1700000000000]
  by (simp add: trim_example example_app_def finished_example_def initialGameState_def
      example_board_def getLeaderboard_def)

text \<open>
  Without the restriction to names that are not blank the statement fails: under a name
  of three spaces nothing is appended or persisted, so an absent leaderboard stays
  absent, and a stored board of eleven unsorted entries stays as it is.
\<close>

theorem handleSaveScore_blank_counterexample:
  "quiz_leaderboard (localStorage (handleSaveScore 1700000000000
      ((example_app finished_example [])\<lparr>playerName := ''   ''\<rparr>))) = None
   \<and> map LeaderboardEntry.score (getLeaderboard (localStorage (handleSaveScore 1700000000000
      ((example_app finished_example [])
         \<lparr>playerName := ''   '',
          localStorage := \<lparr>quiz_leaderboard = Some (Parsed example_board),
                            quiz_last_reset = None\<rparr>\<rparr>))))
     = [300, 100, 500, 200, 400, 700, 600, 900, 800, 1000, 50]"
  by (simp add: handleSaveScore_def trim_def isWhiteSpace_def example_app_def
      example_board_def getLeaderboard_def)

text \<open>
  C10. A submission whose name is empty or consists of white space only changes nothing:
  no entry is appended, local storage is untouched, the saved flag stays as it was and
  no switch to the leaderboard is scheduled.
\<close>

theorem handleSaveScore_blank_name_noop:
  assumes "\<forall>c \<in> set (playerName app). isWhiteSpace c"
  shows "handleSaveScore now app = app"
  using assms trim_empty_iff [of "playerName app"] by (simp add: handleSaveScore_def)

text \<open>The same for the name of three spaces.\<close>

theorem handleSaveScore_blank_name_noop_witness:
  "handleSaveScore 1700000000000 ((example_app finished_example [])\<lparr>playerName := ''   ''\<rparr>)
     = (example_app finished_example [])\<lparr>playerName := ''   ''\<rparr>"
  using handleSaveScore_blank_name_noop
    [of "(example_app finished_example [])\<lparr>playerName := ''   ''\<rparr>" 1700000000000]
  by (simp add: isWhiteSpace_def)

subsection \<open>Weekly reset\<close>

text \<open>
  The marker that one check writes is read back by the next as the same number.
\<close>

lemma digitValue_char_of: "d < 10 \<Longrightarrow> digitValue (char_of (48 + d)) = d"
  by (simp add: digitValue_def Let_def)

lemma digits_nonempty: "digits n \<noteq> []"
  by (subst digits.simps) simp

lemma digits_decimal: "c \<in> set (digits n) \<Longrightarrow> digitValue c < 10"
proof (induction n arbitrary: c rule: digits.induct)
  case (1 n)
  show ?case
  proof (cases "n < 10")
    case True
    with "1.prems" have "c = char_of (48 + n)" by (subst (asm) digits.simps) simp
    with True show ?thesis by (simp add: digitValue_char_of)
  next
    case False
    with "1.prems" have "c \<in> set (digits (n div 10)) \<or> c = char_of (48 + n mod 10)"
      by (subst (asm) digits.simps) auto
    then show ?thesis
    proof
      assume "c \<in> set (digits (n div 10))"
      then show ?thesis using "1.IH" False by blast
    next
      assume "c = char_of (48 + n mod 10)"
      then show ?thesis by (simp add: digitValue_char_of)
    qed
  qed
qed

lemma digits_value: "foldl (\<lambda>acc c. acc * 10 + digitValue c) 0 (digits n) = n"
proof (induction n rule: digits.induct)
  case (1 n)
  show ?case
  proof (cases "n < 10")
    case True
    then show ?thesis by (subst digits.simps) (simp add: digitValue_char_of)
  next
    case False
    then have "foldl (\<lambda>acc c. acc * 10 + digitValue c) 0 (digits (n div 10)) = n div 10"
      using "1.IH" by simp
    with False show ?thesis by (subst digits.simps) (simp add: digitValue_char_of)
  qed
qed

lemma parseInt_digits: "parseInt (digits n) = Some (int n)"
proof -
  have ne: "digits n \<noteq> []" by (rule digits_nonempty)
  then have hd_in: "hd (digits n) \<in> set (digits n)" by simp
  have hd_dec: "digitValue (hd (digits n)) < 10" using hd_in by (rule digits_decimal)
  have not_ws: "\<not> isWhiteSpace (hd (digits n))"
    using hd_dec by (auto simp: isWhiteSpace_def digitValue_def Let_def)
  have dw: "dropWhile isWhiteSpace (digits n) = digits n"
    using ne not_ws by (cases "digits n") simp_all
  have not_sign: "hd (digits n) \<noteq> CHR ''-'' \<and> hd (digits n) \<noteq> CHR ''+''"
    using hd_dec by (auto simp: digitValue_def Let_def)
  have nox: "CHR ''x'' \<notin> set (digits n) \<and> CHR ''X'' \<notin> set (digits n)"
    using digits_decimal [of "CHR ''x''" n] digits_decimal [of "CHR ''X''" n]
    by (auto simp: digitValue_def Let_def)
  have not_hex: "take 2 (digits n) \<noteq> ''0x'' \<and> take 2 (digits n) \<noteq> ''0X''"
  proof -
    have "set (take 2 (digits n)) \<subseteq> set (digits n)" by (rule set_take_subset)
    with nox show ?thesis by auto
  qed
  have tw: "takeWhile (isRadixDigit 10) (digits n) = digits n"
    by (simp add: isRadixDigit_def digits_decimal)
  show ?thesis
    using ne not_sign not_hex
    by (simp add: parseInt_def dw tw digits_value Let_def)
qed

lemma parseInt_toString: "parseInt (toString i) = Some i"
proof (cases "i < 0")
  case False
  then show ?thesis by (simp add: toString_def parseInt_digits)
next
  case True
  let ?d = "digits (nat (- i))"
  have ne: "?d \<noteq> []" by (rule digits_nonempty)
  have nox: "CHR ''x'' \<notin> set ?d \<and> CHR ''X'' \<notin> set ?d"
    using digits_decimal [of "CHR ''x''" "nat (- i)"] digits_decimal [of "CHR ''X''" "nat (- i)"]
    by (auto simp: digitValue_def Let_def)
  have "set (take 2 ?d) \<subseteq> set ?d" by (rule set_take_subset)
  with nox have not_hex: "take 2 ?d \<noteq> ''0x'' \<and> take 2 ?d \<noteq> ''0X''" by auto
  have tw: "takeWhile (isRadixDigit 10) ?d = ?d"
    by (simp add: isRadixDigit_def digits_decimal)
  have ws: "\<not> isWhiteSpace CHR ''-''" by (simp add: isWhiteSpace_def)
  show ?thesis
    using True ne not_hex
    by (simp add: toString_def parseInt_def ws tw digits_value Let_def)
qed

lemma toString_nonempty: "toString i \<noteq> []"
  by (simp add: toString_def digits_nonempty)

lemma lastMonday_local:
  assumes "wall_clock_exists z (LocalTime z now - distanceToMonday z now * msPerDay)"
    and "wall_clock_exists z
           ((LocalTime z now div msPerDay - distanceToMonday z now) * msPerDay)"
  shows "LocalTime z (lastMonday z now)
           = (LocalTime z now div msPerDay - distanceToMonday z now) * msPerDay"
proof -
  define k where "k = distanceToMonday z now"
  define L1 where "L1 = LocalTime z now - k * msPerDay"
  have nz: "msPerDay \<noteq> 0" by (simp add: msPerDay_def)
  have "(LocalTime z now - k * msPerDay) div msPerDay = LocalTime z now div msPerDay - k"
    using div_mult_self1 [OF nz, of "LocalTime z now" "- k"] by simp
  then have day: "L1 div msPerDay = LocalTime z now div msPerDay - k" by (simp add: L1_def)
  have moved: "LocalTime z (Date_setDate_back z now k) = L1"
    using assms(1) by (simp add: Date_setDate_back_def wall_clock_exists_def L1_def k_def)
  have "lastMonday z now = UTC_time z ((L1 div msPerDay) * msPerDay)"
    by (simp add: lastMonday_def Date_setHours0_def moved k_def [symmetric])
  then have "lastMonday z now = UTC_time z ((LocalTime z now div msPerDay - k) * msPerDay)"
    by (simp only: day)
  then show ?thesis
    using assms(2) by (simp add: wall_clock_exists_def k_def)
qed

lemma distanceToMonday_range: "0 \<le> distanceToMonday z now \<and> distanceToMonday z now \<le> 6"
  unfolding distanceToMonday_def Let_def by presburger

lemma monday_day_number:
  "((LocalTime z now div msPerDay - distanceToMonday z now) * msPerDay div msPerDay + 4) mod 7
     = 1"
proof -
  define D where "D = LocalTime z now div msPerDay"
  have "(D - ((D + 4) mod 7 + 6) mod 7) * msPerDay div msPerDay
          = D - ((D + 4) mod 7 + 6) mod 7"
    by (simp add: msPerDay_def)
  moreover have "(D - ((D + 4) mod 7 + 6) mod 7 + 4) mod 7 = 1" by presburger
  ultimately show ?thesis
    by (simp add: distanceToMonday_def Date_getDay_def Let_def D_def)
qed

lemma monday_recent:
  "(LocalTime z now div msPerDay - distanceToMonday z now) * msPerDay \<le> LocalTime z now
   \<and> LocalTime z now
       < (LocalTime z now div msPerDay - distanceToMonday z now) * msPerDay + 7 * msPerDay"
proof -
  define D where "D = LocalTime z now div msPerDay"
  define r where "r = LocalTime z now mod msPerDay"
  define k where "k = distanceToMonday z now"
  have k: "0 \<le> k \<and> k \<le> 6" unfolding k_def by (rule distanceToMonday_range)
  have r: "0 \<le> r \<and> r < msPerDay" unfolding r_def by (simp add: msPerDay_def)
  have "D * msPerDay + r = LocalTime z now" unfolding D_def r_def by simp
  moreover have "(D - k) * msPerDay = D * msPerDay - k * msPerDay"
    by (rule left_diff_distrib)
  moreover have "0 \<le> k * msPerDay \<and> k * msPerDay \<le> 6 * msPerDay"
    using k by (simp add: msPerDay_def)
  ultimately show ?thesis
    using r unfolding D_def [symmetric] k_def [symmetric] by (simp add: msPerDay_def)
qed

lemma toString_examples:
  "toString 1793593800000 = ''1793593800000''"
  "toString 1792989000000 = ''1792989000000''"
  "toString 1792987199999 = ''1792987199999''"
  by (simp_all add: toString_def digits.simps char_of_def bit_simps)

lemma lastMonday_example: "lastMonday new_york_2026 1793593800000 = 1792987200000"
  by (simp add: lastMonday_def distanceToMonday_def Date_getDay_def Date_setDate_back_def
      Date_setHours0_def LocalTime_def UTC_time_def new_york_2026_def msPerDay_def Let_def)

text \<open>
  C8. When the stored reset marker is absent, or is a time stamp earlier than the
  boundary that \<open>checkWeeklyReset\<close> computes, the leaderboard is removed (it then reads
  as the empty list) and the current time is stored as the new marker, with nothing else
  changed; when the marker is a time stamp at or after the boundary, the store is left
  as it is. This holds in every time zone. The boundary is the most recent Monday 00:00
  local time: wherever the two local times that the computation passes through are on
  the wall clock of the zone, the local time of the boundary is on a Monday, at the
  start of the day, not after the local time of \<open>now\<close> and less than seven days before
  it.
\<close>

theorem checkWeeklyReset_cases:
  assumes "quiz_last_reset st = None \<or> quiz_last_reset st = Some (toString t)"
  shows "(if quiz_last_reset st = None \<or> t < lastMonday z now
          then checkWeeklyReset z now st
                 = st\<lparr>quiz_leaderboard := None, quiz_last_reset := Some (toString now)\<rparr>
               \<and> getLeaderboard (checkWeeklyReset z now st) = []
               \<and> map_option parseInt (quiz_last_reset (checkWeeklyReset z now st))
                   = Some (Some now)
          else checkWeeklyReset z now st = st)
    \<and> (wall_clock_exists z (LocalTime z now - distanceToMonday z now * msPerDay)
        \<and> wall_clock_exists z
             ((LocalTime z now div msPerDay - distanceToMonday z now) * msPerDay)
        \<longrightarrow> Date_getDay z (lastMonday z now) = 1
            \<and> LocalTime z (lastMonday z now) mod msPerDay = 0
            \<and> LocalTime z (lastMonday z now) \<le> LocalTime z now
            \<and> LocalTime z now < LocalTime z (lastMonday z now) + 7 * msPerDay)"
proof -
  have branch: "checkWeeklyReset z now st
      = (if quiz_last_reset st = None \<or> t < lastMonday z now
         then st\<lparr>quiz_leaderboard := None, quiz_last_reset := Some (toString now)\<rparr>
         else st)"
    using assms
    by (auto simp: checkWeeklyReset_def parseInt_toString toString_nonempty)
  have first: "(if quiz_last_reset st = None \<or> t < lastMonday z now
          then checkWeeklyReset z now st
                 = st\<lparr>quiz_leaderboard := None, quiz_last_reset := Some (toString now)\<rparr>
               \<and> getLeaderboard (checkWeeklyReset z now st) = []
               \<and> map_option parseInt (quiz_last_reset (checkWeeklyReset z now st))
                   = Some (Some now)
          else checkWeeklyReset z now st = st)"
    unfolding branch by (simp add: getLeaderboard_def parseInt_toString)
  have second: "Date_getDay z (lastMonday z now) = 1
            \<and> LocalTime z (lastMonday z now) mod msPerDay = 0
            \<and> LocalTime z (lastMonday z now) \<le> LocalTime z now
            \<and> LocalTime z now < LocalTime z (lastMonday z now) + 7 * msPerDay"
    if h1: "wall_clock_exists z (LocalTime z now - distanceToMonday z now * msPerDay)"
      and h2: "wall_clock_exists z
                 ((LocalTime z now div msPerDay - distanceToMonday z now) * msPerDay)"
  proof -
    note loc = lastMonday_local [OF h1 h2]
    have "Date_getDay z (lastMonday z now) = 1"
      unfolding Date_getDay_def loc by (rule monday_day_number)
    moreover have "LocalTime z (lastMonday z now) mod msPerDay = 0"
      unfolding loc by simp
    ultimately show ?thesis
      using monday_recent [of z now] unfolding loc by simp
  qed
  from first second show ?thesis by blast
qed

text \<open>
  New York, Sunday 1 November 2026, 23:30 local time, the day the clocks went back: the
  boundary is Monday 26 October 00:00 daylight time, seven days and half an hour before
  \<open>now\<close>. An absent marker and a marker one millisecond before the boundary lead to a
  reset; a marker of Monday 26 October 00:30 leaves the store alone.
\<close>

theorem checkWeeklyReset_cases_witness:
  "checkWeeklyReset new_york_2026 1793593800000
      \<lparr>quiz_leaderboard = Some (Parsed example_board), quiz_last_reset = None\<rparr>
     = \<lparr>quiz_leaderboard = None, quiz_last_reset = Some ''1793593800000''\<rparr>
   \<and> checkWeeklyReset new_york_2026 1793593800000
      \<lparr>quiz_leaderboard = Some (Parsed example_board),
       quiz_last_reset = Some ''1792987199999''\<rparr>
     = \<lparr>quiz_leaderboard = None, quiz_last_reset = Some ''1793593800000''\<rparr>
   \<and> checkWeeklyReset new_york_2026 1793593800000
      \<lparr>quiz_leaderboard = Some (Parsed example_board),
       quiz_last_reset = Some ''1792989000000''\<rparr>
     = \<lparr>quiz_leaderboard = Some (Parsed example_board),
        quiz_last_reset = Some ''1792989000000''\<rparr>
   \<and> Date_getDay new_york_2026 (lastMonday new_york_2026 1793593800000) = 1"
  using checkWeeklyReset_cases
      [of "\<lparr>quiz_leaderboard = Some (Parsed example_board), quiz_last_reset = None\<rparr>"
          0 new_york_2026 1793593800000]
    checkWeeklyReset_cases
      [of "\<lparr>quiz_leaderboard = Some (Parsed example_board),
            quiz_last_reset = Some ''1792987199999''\<rparr>"
          1792987199999 new_york_2026 1793593800000]
    checkWeeklyReset_cases
      [of "\<lparr>quiz_leaderboard = Some (Parsed example_board),
            quiz_last_reset = Some ''1792989000000''\<rparr>"
          1792989000000 new_york_2026 1793593800000]
  by (simp add: toString_examples lastMonday_example wall_clock_exists_def
      distanceToMonday_def Date_getDay_def LocalTime_def UTC_time_def new_york_2026_def
      msPerDay_def Let_def)

end
